theory Spec2Isabelle
  imports Complex_Main "HOL-Library.Char_ord" "HOL-Library.List_Lexorder" "HOL-Library.AList"
begin

section \<open>Churn prediction service: data model\<close>

text \<open>
  A shallow embedding of \<^verbatim>\<open>src/apps/main.py\<close> (the serving side) and of the parts of
  \<^verbatim>\<open>src/scripts/train_model.py\<close> that produce what the serving side loads.

  Conventions. Python \<^verbatim>\<open>float\<close> is idealised as \<^typ>\<open>real\<close> and Python \<^verbatim>\<open>int\<close> is
  \<^typ>\<open>int\<close>; rounding, infinities and NaN are outside the embedding, but the
  \<^verbatim>\<open>OverflowError\<close> of converting an \<^verbatim>\<open>int\<close> beyond the float range is modelled. The four module globals
  \<^verbatim>\<open>model\<close>, \<^verbatim>\<open>scaler\<close>, \<^verbatim>\<open>feature_columns\<close>, \<^verbatim>\<open>label_encoders\<close> are the fields of one
  record that every function takes as an argument; \<^verbatim>\<open>None\<close> is \<open>None\<close>. An exception is
  a value: a function that can raise returns \<open>py_exception + 'a\<close> with \<open>Inl\<close> the exception.
\<close>

datatype py_exception =
    KeyError string
  | ValueError string
  | IndexError string
  | OverflowError string
  | ZeroDivisionError string
  | AttributeError string
  | LoadError string
  | HTTPException nat string "py_exception option"

text \<open>
  \<open>HTTPException code prefix cause\<close> stands for
  \<^verbatim>\<open>HTTPException(status_code=code, detail=prefix + str(cause))\<close>; the cause is \<open>None\<close> when the
  detail is the literal alone. \<open>LoadError\<close> collects what \<^verbatim>\<open>open\<close> and \<^verbatim>\<open>pickle.load\<close> raise.
\<close>

text \<open>The request body, \<^verbatim>\<open>class CustomerData(BaseModel)\<close>; an \<^verbatim>\<open>Optional\<close> field may hold \<^verbatim>\<open>None\<close>.\<close>

record CustomerData =
  tenure :: int
  monthly_charges :: real
  total_charges :: real
  contract_type :: string
  payment_method :: string
  internet_service :: "string option"
  online_security :: "string option"
  tech_support :: "string option"
  streaming_tv :: "string option"
  customer_service_calls :: "int option"

text \<open>The three \<^verbatim>\<open>@validator\<close> methods: each raises when its field is negative.\<close>

definition validated :: "CustomerData \<Rightarrow> bool" where
  "validated c = (\<not> tenure c < 0 \<and> \<not> monthly_charges c < 0 \<and> \<not> total_charges c < 0)"

record PredictionResponse =
  churn_prediction :: bool
  churn_probability :: real
  confidence :: real
  model_version :: string

text \<open>
  One entry of the feature array: a number, or \<open>None\<close> where the array holds Python's \<^verbatim>\<open>None\<close>
  (a request may send \<^verbatim>\<open>null\<close> for \<^verbatim>\<open>customer_service_calls\<close>).
\<close>

type_synonym cell = "real option"

text \<open>
  The loaded classifier is an opaque object with the two methods the service calls. The feature
  array has one row; \<open>predict\<close> and \<open>predict_proba\<close> take that row and return one label and
  one row of class probabilities for each input row. \<open>truth_value\<close> is what Python's truth
  test of the object (\<^verbatim>\<open>if model\<close>) gives: true for an object without \<^verbatim>\<open>__len__\<close>, and for
  an ensemble the outcome of \<^verbatim>\<open>len(self.estimators_) != 0\<close>, which raises \<^verbatim>\<open>AttributeError\<close> on
  an ensemble that was never fitted.
\<close>

record classifier =
  type_name :: string
  truth_value :: "py_exception + bool"
  predict :: "cell list \<Rightarrow> py_exception + int list"
  predict_proba :: "cell list \<Rightarrow> py_exception + real list list"

text \<open>
  A fitted \<^verbatim>\<open>LabelEncoder\<close>: its list of known values, the position of a value being its code,
  and the cast that \<^verbatim>\<open>transform\<close> applies to a value before it looks it up (the input is
  converted to the dtype of the known values: object-typed values leave it as it is,
  string-typed values turn \<^verbatim>\<open>None\<close> into the string \<^verbatim>\<open>'None'\<close>). A cast value of \<open>None\<close> is
  Python's \<^verbatim>\<open>None\<close>, which is no known value.
  A fitted \<^verbatim>\<open>StandardScaler\<close>: one mean and one scale for each column.
\<close>

record LabelEncoder =
  le_classes :: "string list"
  le_cast :: "string option \<Rightarrow> string option"

record StandardScaler =
  sc_mean :: "real list"
  sc_scale :: "real list"

text \<open>The module globals of \<^verbatim>\<open>main.py\<close> (lines 60-63); a dict is an association list.\<close>

record snapshot =
  model :: "classifier option"
  scaler :: "StandardScaler option"
  feature_columns :: "string list option"
  label_encoders :: "(string \<times> LabelEncoder) list option"

definition initial_snapshot :: snapshot where
  "initial_snapshot =
     \<lparr>model = None, scaler = None, feature_columns = None, label_encoders = None\<rparr>"

text \<open>Python's truth value of a list or dict that may be \<^verbatim>\<open>None\<close>: false when \<^verbatim>\<open>None\<close> or empty.\<close>

definition truthy :: "'a list option \<Rightarrow> bool" where
  "truthy x = (case x of None \<Rightarrow> False | Some xs \<Rightarrow> xs \<noteq> [])"

section \<open>The library objects\<close>

fun index_of :: "'a \<Rightarrow> 'a list \<Rightarrow> nat" where
  "index_of x [] = 0"
| "index_of x (y # ys) = (if x = y then 0 else Suc (index_of x ys))"

text \<open>
  \<^verbatim>\<open>encoder.transform([v])[0]\<close>: the value is cast, then the code of a known value is
  returned and \<^verbatim>\<open>ValueError\<close> is raised for any other.
\<close>

definition le_transform :: "LabelEncoder \<Rightarrow> string option \<Rightarrow> py_exception + int" where
  "le_transform le v =
     (case le_cast le v of
        None \<Rightarrow> Inl (ValueError ''y contains previously unseen labels'')
      | Some x \<Rightarrow>
          if x \<in> set (le_classes le) then Inr (int (index_of x (le_classes le)))
          else Inl (ValueError ''y contains previously unseen labels''))"

text \<open>
  \<^verbatim>\<open>LabelEncoder().fit(column)\<close> on a column of a pandas frame that holds Python strings: the
  known values are the distinct values, sorted, and they are object-typed.
\<close>

definition le_fit :: "string list \<Rightarrow> LabelEncoder" where
  "le_fit col = \<lparr>le_classes = sort (remdups col), le_cast = (\<lambda>v. v)\<rparr>"

text \<open>
  \<^verbatim>\<open>n / d\<close> for an \<^verbatim>\<open>int\<close> and a \<^verbatim>\<open>float\<close>: the \<^verbatim>\<open>int\<close> is converted first, which raises
  \<^verbatim>\<open>OverflowError\<close> when it rounds to a magnitude of \<open>2 ^ 1024\<close> or more, that is from
  \<open>2 ^ 1024 - 2 ^ 970\<close> on; then a zero divisor raises.
\<close>

definition float_limit :: int where
  "float_limit = 2 ^ 1024 - 2 ^ 970"

definition int_to_float :: "int \<Rightarrow> py_exception + real" where
  "int_to_float n =
     (if \<bar>n\<bar> < float_limit then Inr (real_of_int n)
      else Inl (OverflowError ''int too large to convert to float''))"

definition int_div_float :: "int \<Rightarrow> real \<Rightarrow> py_exception + real" where
  "int_div_float n d =
     (case int_to_float n of
        Inl e \<Rightarrow> Inl e
      | Inr x \<Rightarrow> if d = 0 then Inl (ZeroDivisionError ''float division by zero'')
                else Inr (x / d))"

text \<open>
  \<^verbatim>\<open>scaler.transform(row)\<close>: \<^verbatim>\<open>ValueError\<close> when the row's width is not the fitted width, else
  \<open>(x - mean) / scale\<close> in each column; an entry that is no number stays so.
\<close>

definition sc_transform :: "StandardScaler \<Rightarrow> cell list \<Rightarrow> py_exception + cell list" where
  "sc_transform sc row =
     (if length row \<noteq> length (sc_mean sc) \<or> length (sc_scale sc) \<noteq> length (sc_mean sc)
      then Inl (ValueError ''X has a different number of features than StandardScaler expects'')
      else Inr (map (\<lambda>(x, m, d). map_option (\<lambda>r. (r - m) / d) x)
                  (zip row (zip (sc_mean sc) (sc_scale sc)))))"

text \<open>\<^verbatim>\<open>d[k]\<close> and \<^verbatim>\<open>d.get(k, default)\<close> on a dict, \<^verbatim>\<open>xs[i]\<close> on a sequence.\<close>

definition dict_item :: "(string \<times> 'v) list \<Rightarrow> string \<Rightarrow> py_exception + 'v" where
  "dict_item d k = (case map_of d k of None \<Rightarrow> Inl (KeyError k) | Some v \<Rightarrow> Inr v)"

definition dict_get :: "(string \<times> 'v) list \<Rightarrow> string option \<Rightarrow> 'v \<Rightarrow> 'v" where
  "dict_get d k dflt =
     (case k of
        None \<Rightarrow> dflt
      | Some k' \<Rightarrow> (case map_of d k' of None \<Rightarrow> dflt | Some v \<Rightarrow> v))"

definition seq_item :: "'a list \<Rightarrow> nat \<Rightarrow> py_exception + 'a" where
  "seq_item xs i = (if i < length xs then Inr (xs ! i) else Inl (IndexError ''index out of range''))"

text \<open>\<^verbatim>\<open>max(xs)\<close>: \<^verbatim>\<open>ValueError\<close> on an empty sequence.\<close>

definition py_max :: "real list \<Rightarrow> py_exception + real" where
  "py_max xs = (case xs of [] \<Rightarrow> Inl (ValueError ''max() arg is an empty sequence'')
                | y # ys \<Rightarrow> Inr (fold max ys y))"

section \<open>Artifact loading: \<^verbatim>\<open>load_model\<close>\<close>

text \<open>
  What the two paths hold when \<^verbatim>\<open>load_model\<close> runs. A path is \<open>NoFile\<close>, or reading it
  raises, or it unpickles to an object. The full layout is the dict that
  \<^verbatim>\<open>save_model\<close> of the training script writes, with the four slots typed as written there;
  a slot can be missing from the dict (\<^verbatim>\<open>KeyError\<close>). \<open>Unreadable\<close> on the full path also
  covers an object that cannot be subscripted by \<^verbatim>\<open>'model'\<close>: it raises before any global is
  assigned.
\<close>

datatype 'a slot = NoKey | Key 'a

record model_data =
  md_model :: "classifier option slot"
  md_scaler :: "StandardScaler option slot"
  md_feature_columns :: "string list option slot"
  md_label_encoders :: "(string \<times> LabelEncoder) list option slot"

datatype 'a pickle_file = NoFile | Unreadable py_exception | Pickled 'a

record files =
  full_file :: "model_data pickle_file"
  simple_file :: "classifier option pickle_file"

text \<open>
  The body of the \<^verbatim>\<open>try\<close> of \<^verbatim>\<open>load_model\<close> (lines 70-88): the exception it raised, if any,
  and the globals as they stand at that moment. The four assignments happen one after
  another, so an exception between two of them leaves the earlier ones done.
\<close>

definition load_model_body :: "files \<Rightarrow> snapshot \<Rightarrow> py_exception option \<times> snapshot" where
  "load_model_body fs s =
     (case full_file fs of
        Unreadable e \<Rightarrow> (Some e, s)
      | Pickled md \<Rightarrow>
          (case md_model md of
             NoKey \<Rightarrow> (Some (KeyError ''model''), s)
           | Key m \<Rightarrow>
               let s1 = s\<lparr>model := m\<rparr> in
               (case md_scaler md of
                  NoKey \<Rightarrow> (Some (KeyError ''scaler''), s1)
                | Key sc \<Rightarrow>
                    let s2 = s1\<lparr>scaler := sc\<rparr> in
                    (case md_feature_columns md of
                       NoKey \<Rightarrow> (Some (KeyError ''feature_columns''), s2)
                     | Key fc \<Rightarrow>
                         let s3 = s2\<lparr>feature_columns := fc\<rparr> in
                         (case md_label_encoders md of
                            NoKey \<Rightarrow> (Some (KeyError ''label_encoders''), s3)
                          | Key les \<Rightarrow> (None, s3\<lparr>label_encoders := les\<rparr>)))))
      | NoFile \<Rightarrow>
          (case simple_file fs of
             NoFile \<Rightarrow> (Some (LoadError ''FileNotFoundError''), s)
           | Unreadable e \<Rightarrow> (Some e, s)
           | Pickled m \<Rightarrow> (None, s\<lparr>model := m\<rparr>)))"

text \<open>\<^verbatim>\<open>load_model\<close>: \<^verbatim>\<open>True\<close> when the body ran through, \<^verbatim>\<open>False\<close> from the \<^verbatim>\<open>except\<close>.\<close>

definition load_model :: "files \<Rightarrow> snapshot \<Rightarrow> bool \<times> snapshot" where
  "load_model fs s =
     (case load_model_body fs s of
        (None, s') \<Rightarrow> (True, s')
      | (Some e, s') \<Rightarrow> (False, s'))"

section \<open>Feature construction: \<^verbatim>\<open>prepare_features\<close>\<close>

text \<open>
  The dict literal of lines 97-107. Its entries are evaluated in order; the one expression
  that can raise is the quotient of line 105, which divides an \<^verbatim>\<open>int\<close> by a \<^verbatim>\<open>float\<close>.
\<close>

definition base_features :: "CustomerData \<Rightarrow> py_exception + (string \<times> cell) list" where
  "base_features c =
     (case (if monthly_charges c > 0 then int_div_float (tenure c) (monthly_charges c)
            else Inr 0) of
        Inl e \<Rightarrow> Inl e
      | Inr tenure_monthly_ratio \<Rightarrow>
          Inr [(''tenure'', Some (real_of_int (tenure c))),
               (''monthly_charges'', Some (monthly_charges c)),
               (''total_charges'', Some (total_charges c)),
               (''customer_service_calls'', map_option real_of_int (customer_service_calls c)),
               (''is_month_to_month'',
                  Some (if contract_type c = ''Month-to-month'' then 1 else 0)),
               (''is_electronic_check'',
                  Some (if payment_method c = ''Electronic check'' then 1 else 0)),
               (''has_internet'', Some (if internet_service c \<noteq> Some ''No'' then 1 else 0)),
               (''tenure_monthly_ratio'', Some tenure_monthly_ratio),
               (''total_monthly_ratio'',
                  Some (if monthly_charges c > 0 then total_charges c / monthly_charges c
                        else 0))])"

text \<open>The three fallback tables of lines 116-118.\<close>

definition contract_mapping :: "(string \<times> int) list" where
  "contract_mapping = [(''Month-to-month'', 0), (''One year'', 1), (''Two year'', 2)]"

definition payment_mapping :: "(string \<times> int) list" where
  "payment_mapping =
     [(''Electronic check'', 0), (''Mailed check'', 1), (''Bank transfer'', 2), (''Credit card'', 3)]"

definition internet_mapping :: "(string \<times> int) list" where
  "internet_mapping = [(''No'', 0), (''DSL'', 1), (''Fiber optic'', 2)]"

text \<open>\<^verbatim>\<open>label_encoders[name].transform([v])[0]\<close>.\<close>

definition encode_with ::
  "(string \<times> LabelEncoder) list \<Rightarrow> string \<Rightarrow> string option \<Rightarrow> py_exception + int" where
  "encode_with les name v =
     (case dict_item les name of Inl e \<Rightarrow> Inl e | Inr le \<Rightarrow> le_transform le v)"

text \<open>The three codes of lines 110-122, in the order contract, payment, internet.\<close>

definition categorical_codes :: "snapshot \<Rightarrow> CustomerData \<Rightarrow> py_exception + int \<times> int \<times> int" where
  "categorical_codes s c =
     (if truthy (label_encoders s) then
        (case encode_with (the (label_encoders s)) ''contract'' (Some (contract_type c)) of
           Inl e \<Rightarrow> Inl e
         | Inr ce \<Rightarrow>
             (case encode_with (the (label_encoders s)) ''payment'' (Some (payment_method c)) of
                Inl e \<Rightarrow> Inl e
              | Inr pe \<Rightarrow>
                  (case encode_with (the (label_encoders s)) ''internet'' (internet_service c) of
                     Inl e \<Rightarrow> Inl e
                   | Inr ie \<Rightarrow> Inr (ce, pe, ie))))
      else
        Inr (dict_get contract_mapping (Some (contract_type c)) 0,
             dict_get payment_mapping (Some (payment_method c)) 0,
             dict_get internet_mapping (internet_service c) 0))"

text \<open>The \<^verbatim>\<open>features\<close> dict once lines 97-122 have run.\<close>

definition build_features :: "snapshot \<Rightarrow> CustomerData \<Rightarrow> py_exception + (string \<times> cell) list" where
  "build_features s c =
     (case base_features c of
        Inl e \<Rightarrow> Inl e
      | Inr features \<Rightarrow>
          (case categorical_codes s c of
             Inl e \<Rightarrow> Inl e
           | Inr (ce, pe, ie) \<Rightarrow>
               Inr (AList.update ''internet_encoded'' (Some (real_of_int ie))
                     (AList.update ''payment_encoded'' (Some (real_of_int pe))
                       (AList.update ''contract_encoded'' (Some (real_of_int ce))
                         features)))))"

text \<open>\<^verbatim>\<open>[features[col] for col in cols]\<close>: stops at the first name that is no key.\<close>

fun select_columns :: "(string \<times> cell) list \<Rightarrow> string list \<Rightarrow> py_exception + cell list" where
  "select_columns fs [] = Inr []"
| "select_columns fs (col # cols) =
     (case dict_item fs col of
        Inl e \<Rightarrow> Inl e
      | Inr v \<Rightarrow> (case select_columns fs cols of Inl e \<Rightarrow> Inl e | Inr vs \<Rightarrow> Inr (v # vs)))"

text \<open>The built-in order of lines 129-135.\<close>

definition fallback_order :: "string list" where
  "fallback_order =
     [''tenure'', ''monthly_charges'', ''total_charges'',
      ''customer_service_calls'', ''is_month_to_month'',
      ''is_electronic_check'', ''has_internet'',
      ''tenure_monthly_ratio'', ''total_monthly_ratio'',
      ''contract_encoded'', ''payment_encoded'', ''internet_encoded'']"

text \<open>The single row of \<^verbatim>\<open>feature_array\<close> once lines 97-135 have run.\<close>

definition assemble_features :: "snapshot \<Rightarrow> CustomerData \<Rightarrow> py_exception + cell list" where
  "assemble_features s c =
     (case build_features s c of
        Inl e \<Rightarrow> Inl e
      | Inr fs \<Rightarrow>
          if truthy (feature_columns s) then select_columns fs (the (feature_columns s))
          else select_columns fs fallback_order)"

text \<open>The body of the \<^verbatim>\<open>try\<close> of \<^verbatim>\<open>prepare_features\<close> (lines 96-141).\<close>

definition prepare_features_body :: "snapshot \<Rightarrow> CustomerData \<Rightarrow> py_exception + cell list" where
  "prepare_features_body s c =
     (case assemble_features s c of
        Inl e \<Rightarrow> Inl e
      | Inr row \<Rightarrow>
          (case scaler s of
             Some sc \<Rightarrow> sc_transform sc row
           | None \<Rightarrow> Inr row))"

text \<open>\<^verbatim>\<open>prepare_features\<close>: any exception of the body is re-raised as status 500.\<close>

definition prepare_features :: "snapshot \<Rightarrow> CustomerData \<Rightarrow> py_exception + cell list" where
  "prepare_features s c =
     (case prepare_features_body s c of
        Inl e \<Rightarrow> Inl (HTTPException 500 ''Feature preparation error: '' (Some e))
      | Inr row \<Rightarrow> Inr row)"

section \<open>Inference and health\<close>

text \<open>Lines 164-172: the two model calls and the response built from them.\<close>

definition infer :: "classifier \<Rightarrow> cell list \<Rightarrow> py_exception + PredictionResponse" where
  "infer m row =
     (case predict m row of
        Inl e \<Rightarrow> Inl e
      | Inr labels \<Rightarrow>
          (case seq_item labels 0 of
             Inl e \<Rightarrow> Inl e
           | Inr prediction \<Rightarrow>
               (case predict_proba m row of
                  Inl e \<Rightarrow> Inl e
                | Inr rows \<Rightarrow>
                    (case seq_item rows 0 of
                       Inl e \<Rightarrow> Inl e
                     | Inr probability \<Rightarrow>
                         (case seq_item probability 1 of
                            Inl e \<Rightarrow> Inl e
                          | Inr p1 \<Rightarrow>
                              (case py_max probability of
                                 Inl e \<Rightarrow> Inl e
                               | Inr pmax \<Rightarrow>
                                   Inr \<lparr>churn_prediction = (prediction \<noteq> 0),
                                        churn_probability = p1,
                                        confidence = pmax,
                                        model_version = ''1.0.0''\<rparr>))))))"

text \<open>The body of the \<^verbatim>\<open>try\<close> of \<^verbatim>\<open>predict_churn\<close> (lines 157-172).\<close>

definition predict_churn_body :: "snapshot \<Rightarrow> CustomerData \<Rightarrow> py_exception + PredictionResponse" where
  "predict_churn_body s c =
     (case model s of
        None \<Rightarrow> Inl (HTTPException 500 ''Model not loaded'' None)
      | Some m \<Rightarrow>
          (case prepare_features s c of
             Inl e \<Rightarrow> Inl e
           | Inr features \<Rightarrow> infer m features))"

text \<open>
  \<^verbatim>\<open>predict_churn\<close>: the \<^verbatim>\<open>except Exception\<close> clause catches whatever the body raised, the
  \<^verbatim>\<open>HTTPException\<close>s of the body included, and raises status 500 with \<^verbatim>\<open>str(e)\<close> as detail.
\<close>

definition predict_churn :: "snapshot \<Rightarrow> CustomerData \<Rightarrow> py_exception + PredictionResponse" where
  "predict_churn s c =
     (case predict_churn_body s c of
        Inl e \<Rightarrow> Inl (HTTPException 500 [] (Some e))
      | Inr r \<Rightarrow> Inr r)"

record HealthResponse =
  status :: string
  model_loaded :: bool
  model_type :: "string option"

text \<open>
  \<^verbatim>\<open>health_check\<close> (lines 181-185). The dict is built entry by entry: the constant status,
  the test \<^verbatim>\<open>model is not None\<close>, and the type name guarded by the truth test \<^verbatim>\<open>if model\<close>.
  \<^verbatim>\<open>None\<close> is false; for a model object the test is the object's own, and what it raises
  leaves the function, which has no \<^verbatim>\<open>try\<close>.
\<close>

definition health_check :: "snapshot \<Rightarrow> py_exception + HealthResponse" where
  "health_check s =
     (case model s of
        None \<Rightarrow> Inr \<lparr>status = ''healthy'', model_loaded = False, model_type = None\<rparr>
      | Some m \<Rightarrow>
          (case truth_value m of
             Inl e \<Rightarrow> Inl e
           | Inr b \<Rightarrow>
               Inr \<lparr>status = ''healthy'', model_loaded = True,
                    model_type = (if b then Some (type_name m) else None)\<rparr>))"

section \<open>The training side\<close>

text \<open>
  \<^verbatim>\<open>engineer_features\<close> (train_model.py, lines 194-207) fits one encoder on each categorical
  column of the dataset and returns them under the keys the service looks up.
\<close>

definition engineer_label_encoders ::
  "string list \<Rightarrow> string list \<Rightarrow> string list \<Rightarrow> (string \<times> LabelEncoder) list" where
  "engineer_label_encoders contract_col payment_col internet_col =
     [(''contract'', le_fit contract_col),
      (''payment'', le_fit payment_col),
      (''internet'', le_fit internet_col)]"

text \<open>The values \<^verbatim>\<open>create_synthetic_dataset\<close> draws the three columns from (lines 68-70).\<close>

definition contract_values :: "string list" where
  "contract_values = [''Month-to-month'', ''One year'', ''Two year'']"

definition payment_values :: "string list" where
  "payment_values = [''Electronic check'', ''Mailed check'', ''Bank transfer'', ''Credit card'']"

definition internet_values :: "string list" where
  "internet_values = [''DSL'', ''Fiber optic'', ''No'']"

text \<open>\<^verbatim>\<open>feature_columns\<close> of the training script's \<^verbatim>\<open>main\<close> (lines 459-464).\<close>

definition training_feature_columns :: "string list" where
  "training_feature_columns =
     [''tenure'', ''monthly_charges'', ''total_charges'', ''customer_service_calls'',
      ''is_month_to_month'', ''is_electronic_check'', ''has_internet'',
      ''tenure_monthly_ratio'', ''total_monthly_ratio'',
      ''contract_encoded'', ''payment_encoded'', ''internet_encoded'']"

section \<open>Concrete inputs\<close>

definition example_customer :: CustomerData where
  "example_customer =
     \<lparr>tenure = 12, monthly_charges = 50, total_charges = 600,
      contract_type = ''Month-to-month'', payment_method = ''Electronic check'',
      internet_service = Some ''DSL'', online_security = Some ''No'',
      tech_support = Some ''No'', streaming_tv = Some ''No'',
      customer_service_calls = Some 2\<rparr>"

definition stub_model :: classifier where
  "stub_model =
     \<lparr>type_name = ''StubModel'',
      truth_value = Inr True,
      predict = (\<lambda>row. Inr [1]),
      predict_proba = (\<lambda>row. Inr [[0.3, 0.7]])\<rparr>"

text \<open>The snapshot after a load of the simple layout, and after a load of the full layout.\<close>

definition absent_snapshot :: snapshot where
  "absent_snapshot = initial_snapshot\<lparr>model := Some stub_model\<rparr>"

definition trained_encoders :: "(string \<times> LabelEncoder) list" where
  "trained_encoders = engineer_label_encoders contract_values payment_values internet_values"

definition full_snapshot :: "StandardScaler option \<Rightarrow> snapshot" where
  "full_snapshot sc =
     \<lparr>model = Some stub_model, scaler = sc,
      feature_columns = Some training_feature_columns,
      label_encoders = Some trained_encoders\<rparr>"

text \<open>A fitted scaler of the width the training script produces, with mean 0 and scale 1.\<close>

definition unit_scaler :: StandardScaler where
  "unit_scaler = \<lparr>sc_mean = replicate 12 0, sc_scale = replicate 12 1\<rparr>"

text \<open>Two states of the disk: neither path exists; the full path holds a dict with the \<^verbatim>\<open>'model'\<close> slot only.\<close>

definition no_files :: files where
  "no_files = \<lparr>full_file = NoFile, simple_file = NoFile\<rparr>"

definition model_only_bundle :: files where
  "model_only_bundle =
     \<lparr>full_file = Pickled \<lparr>md_model = Key (Some stub_model), md_scaler = NoKey,
                             md_feature_columns = NoKey, md_label_encoders = NoKey\<rparr>,
      simple_file = NoFile\<rparr>"

text \<open>
  An ensemble classifier that was pickled without being fitted, and a disk whose simple
  path holds it.
\<close>

definition unfitted_model :: classifier where
  "unfitted_model =
     \<lparr>type_name = ''RandomForestClassifier'',
      truth_value = Inl (AttributeError ''estimators_''),
      predict = (\<lambda>row. Inl (AttributeError ''estimators_'')),
      predict_proba = (\<lambda>row. Inl (AttributeError ''estimators_''))\<rparr>"

definition unfitted_simple_file :: files where
  "unfitted_simple_file = \<lparr>full_file = NoFile, simple_file = Pickled (Some unfitted_model)\<rparr>"

text \<open>Encoders fitted on columns in which only Electronic check, Mailed check and No occur.\<close>

definition table_like_encoders :: "(string \<times> LabelEncoder) list" where
  "table_like_encoders =
     engineer_label_encoders contract_values [''Electronic check'', ''Mailed check''] [''No'']"

lemmas example_defs = example_customer_def absent_snapshot_def initial_snapshot_def stub_model_def
  full_snapshot_def trained_encoders_def engineer_label_encoders_def le_fit_def
  contract_values_def payment_values_def internet_values_def training_feature_columns_def

lemmas feature_defs = prepare_features_def prepare_features_body_def assemble_features_def
  build_features_def categorical_codes_def base_features_def truthy_def dict_get_def dict_item_def
  contract_mapping_def payment_mapping_def internet_mapping_def fallback_order_def
  encode_with_def le_transform_def sc_transform_def
  int_div_float_def int_to_float_def float_limit_def

section \<open>Shared facts\<close>

lemma absent_example_row:
  "prepare_features absent_snapshot example_customer =
     Inr [Some 12, Some 50, Some 600, Some 2, Some 1, Some 1, Some 1,
          Some (6 / 25), Some 12, Some 0, Some 0, Some 1]"
  by (simp add: example_defs feature_defs)

lemma infer_two_class:
  assumes "predict m row = Inr (l # ls)"
      and "predict_proba m row = Inr ([p0, p1] # rows)"
  shows "infer m row =
           Inr \<lparr>churn_prediction = (l \<noteq> 0), churn_probability = p1,
                confidence = max p0 p1, model_version = ''1.0.0''\<rparr>"
  using assms by (simp add: infer_def seq_item_def py_max_def max.commute)

lemma select_columns_length:
  "select_columns fs cols = Inr row \<Longrightarrow> length row = length cols"
  by (induction cols arbitrary: row) (auto split: sum.splits)

lemma sc_transform_length:
  "sc_transform sc row = Inr row' \<Longrightarrow> length row' = length row"
  by (auto simp: sc_transform_def split: if_splits)

lemma categorical_codes_fallback:
  "\<not> truthy (label_encoders s) \<Longrightarrow>
   categorical_codes s c =
     Inr (dict_get contract_mapping (Some (contract_type c)) 0,
          dict_get payment_mapping (Some (payment_method c)) 0,
          dict_get internet_mapping (internet_service c) 0)"
  by (simp add: categorical_codes_def)

lemma assemble_features_length:
  assumes "assemble_features s c = Inr row"
  shows "length row = (if truthy (feature_columns s) then length (the (feature_columns s)) else 12)"
  using assms
  by (auto simp: assemble_features_def fallback_order_def split: sum.splits if_splits
           dest!: select_columns_length)

lemma prepare_features_row_length:
  assumes "prepare_features s c = Inr row"
  shows "length row = (if truthy (feature_columns s) then length (the (feature_columns s)) else 12)"
proof -
  from assms obtain row0 where a: "assemble_features s c = Inr row0"
    and b: "length row = length row0"
    by (auto simp: prepare_features_def prepare_features_body_def
             split: sum.splits option.splits dest: sc_transform_length)
  from assemble_features_length [OF a] b show ?thesis by simp
qed

lemma base_features_Inr:
  assumes "base_features c = Inr b"
  shows "b = [(''tenure'', Some (real_of_int (tenure c))),
              (''monthly_charges'', Some (monthly_charges c)),
              (''total_charges'', Some (total_charges c)),
              (''customer_service_calls'', map_option real_of_int (customer_service_calls c)),
              (''is_month_to_month'',
                 Some (if contract_type c = ''Month-to-month'' then 1 else 0)),
              (''is_electronic_check'',
                 Some (if payment_method c = ''Electronic check'' then 1 else 0)),
              (''has_internet'', Some (if internet_service c \<noteq> Some ''No'' then 1 else 0)),
              (''tenure_monthly_ratio'',
                 Some (if monthly_charges c > 0 then real_of_int (tenure c) / monthly_charges c
                       else 0)),
              (''total_monthly_ratio'',
                 Some (if monthly_charges c > 0 then total_charges c / monthly_charges c
                       else 0))]"
  using assms
  by (auto simp: base_features_def int_div_float_def int_to_float_def
           split: if_splits sum.splits)

lemma build_features_Inr:
  assumes "build_features s c = Inr fs"
  shows "\<exists>b ce pe ie. base_features c = Inr b \<and> categorical_codes s c = Inr (ce, pe, ie)
           \<and> fs = b @
                [(''contract_encoded'', Some (real_of_int ce)),
                 (''payment_encoded'', Some (real_of_int pe)),
                 (''internet_encoded'', Some (real_of_int ie))]"
proof -
  from assms obtain b ce pe ie where b: "base_features c = Inr b"
    and k: "categorical_codes s c = Inr (ce, pe, ie)"
    and f: "fs = AList.update ''internet_encoded'' (Some (real_of_int ie))
                  (AList.update ''payment_encoded'' (Some (real_of_int pe))
                    (AList.update ''contract_encoded'' (Some (real_of_int ce)) b))"
    by (auto simp: build_features_def split: sum.splits)
  from f have "fs = b @
                [(''contract_encoded'', Some (real_of_int ce)),
                 (''payment_encoded'', Some (real_of_int pe)),
                 (''internet_encoded'', Some (real_of_int ie))]"
    unfolding base_features_Inr [OF b] by simp
  with b k show ?thesis by blast
qed

lemma encode_with_error_kind:
  "encode_with les name v = Inl e \<Longrightarrow>
     e = ValueError ''y contains previously unseen labels'' \<or> e = KeyError name"
  by (auto simp: encode_with_def dict_item_def le_transform_def split: option.splits if_splits)

lemma le_transform_cast_none:
  assumes "le_cast le None = Some ''None''" and "''None'' \<in> set (le_classes le)"
  shows "le_transform le None = Inr (int (index_of ''None'' (le_classes le)))"
  using assms by (simp add: le_transform_def)

lemma categorical_codes_unknown:
  assumes "label_encoders s = Some les" and "les \<noteq> []"
    and "(case map_of les ''contract'' of None \<Rightarrow> True
          | Some le \<Rightarrow> (case le_cast le (Some (contract_type c)) of None \<Rightarrow> True
                        | Some x \<Rightarrow> x \<notin> set (le_classes le)))
       \<or> (case map_of les ''payment'' of None \<Rightarrow> True
          | Some le \<Rightarrow> (case le_cast le (Some (payment_method c)) of None \<Rightarrow> True
                        | Some x \<Rightarrow> x \<notin> set (le_classes le)))
       \<or> (case map_of les ''internet'' of None \<Rightarrow> True
          | Some le \<Rightarrow> (case le_cast le (internet_service c) of None \<Rightarrow> True
                        | Some x \<Rightarrow> x \<notin> set (le_classes le)))"
  shows "\<exists>e. categorical_codes s c = Inl e
           \<and> (e = ValueError ''y contains previously unseen labels'' \<or> (\<exists>k. e = KeyError k))"
proof -
  have t: "truthy (label_encoders s)"
    using assms(1,2) by (simp add: truthy_def)
  have "\<not> (\<exists>r. categorical_codes s c = Inr r)"
  proof
    assume "\<exists>r. categorical_codes s c = Inr r"
    then obtain ce pe ie where
      "encode_with les ''contract'' (Some (contract_type c)) = Inr ce"
      "encode_with les ''payment'' (Some (payment_method c)) = Inr pe"
      "encode_with les ''internet'' (internet_service c) = Inr ie"
      using t assms(1) by (auto simp: categorical_codes_def split: sum.splits)
    with assms(3) show False
      by (auto simp: encode_with_def dict_item_def le_transform_def
               split: option.splits if_splits)
  qed
  then obtain e where e: "categorical_codes s c = Inl e"
    by (cases "categorical_codes s c") auto
  then have "e = ValueError ''y contains previously unseen labels'' \<or> (\<exists>k. e = KeyError k)"
    using t assms(1)
    by (auto simp: categorical_codes_def split: sum.splits dest: encode_with_error_kind)
  with e show ?thesis by blast
qed

lemma load_model_fst:
  "fst (load_model fs s) = (fst (load_model_body fs s) = None)"
  by (cases "load_model_body fs s") (auto simp: load_model_def split: option.splits)

lemma load_model_snd:
  "snd (load_model fs s) = snd (load_model_body fs s)"
  by (cases "load_model_body fs s") (auto simp: load_model_def split: option.splits)

lemma predict_churn_no_model:
  "model s = None \<Longrightarrow>
   predict_churn s c =
     Inl (HTTPException 500 [] (Some (HTTPException 500 ''Model not loaded'' None)))"
  by (simp add: predict_churn_def predict_churn_body_def)

section \<open>Inference\<close>

text \<open>
  Claim C1. Whenever the loaded model returns a label \<open>l\<close> and the two class probabilities
  \<open>[p0, p1]\<close> for the feature row, the inference step returns a response whose
  \<open>churn_prediction\<close> is \<open>l \<noteq> 0\<close>, whose \<open>churn_probability\<close> is \<open>p1\<close> (index 1), whose
  \<open>confidence\<close> is \<open>max p0 p1\<close> and whose \<open>model_version\<close> is \<open>''1.0.0''\<close>, and
  \<^verbatim>\<open>predict_churn\<close> returns that response when the row is the one \<^verbatim>\<open>prepare_features\<close> built;
  both numbers lie in \<open>[0, 1]\<close> when \<open>p0\<close> and \<open>p1\<close> do. For the record of the spec's
  end-to-end example and the stub model (label 1, probabilities 0.3 and 0.7) the response is
  churn, probability 0.7, confidence 0.7, version 1.0.0.
\<close>

theorem predict_churn_result:
  "(\<forall>m row l ls p0 p1 rows s c.
      predict m row = Inr (l # ls) \<and> predict_proba m row = Inr ([p0, p1] # rows) \<longrightarrow>
      (\<exists>r. infer m row = Inr r
         \<and> (model s = Some m \<and> prepare_features s c = Inr row \<longrightarrow> predict_churn s c = Inr r)
         \<and> churn_prediction r = (l \<noteq> 0)
         \<and> churn_probability r = p1
         \<and> confidence r = max p0 p1
         \<and> model_version r = ''1.0.0''
         \<and> (0 \<le> p0 \<and> p0 \<le> 1 \<and> 0 \<le> p1 \<and> p1 \<le> 1 \<longrightarrow>
              0 \<le> churn_probability r \<and> churn_probability r \<le> 1
              \<and> 0 \<le> confidence r \<and> confidence r \<le> 1)))
   \<and> predict_churn absent_snapshot example_customer =
       Inr \<lparr>churn_prediction = True, churn_probability = 0.7,
            confidence = 0.7, model_version = ''1.0.0''\<rparr>"
proof (intro conjI allI impI)
  fix m :: classifier and row l ls p0 p1 rows and s :: snapshot and c :: CustomerData
  assume a: "predict m row = Inr (l # ls) \<and> predict_proba m row = Inr ([p0, p1] # rows)"
  let ?r = "\<lparr>churn_prediction = (l \<noteq> 0), churn_probability = p1,
              confidence = max p0 p1, model_version = ''1.0.0''\<rparr>"
  from a have i: "infer m row = Inr ?r"
    by (simp add: infer_two_class)
  have p: "model s = Some m \<and> prepare_features s c = Inr row \<longrightarrow> predict_churn s c = Inr ?r"
    using i by (simp add: predict_churn_def predict_churn_body_def)
  show "\<exists>r. infer m row = Inr r
         \<and> (model s = Some m \<and> prepare_features s c = Inr row \<longrightarrow> predict_churn s c = Inr r)
         \<and> churn_prediction r = (l \<noteq> 0)
         \<and> churn_probability r = p1
         \<and> confidence r = max p0 p1
         \<and> model_version r = ''1.0.0''
         \<and> (0 \<le> p0 \<and> p0 \<le> 1 \<and> 0 \<le> p1 \<and> p1 \<le> 1 \<longrightarrow>
              0 \<le> churn_probability r \<and> churn_probability r \<le> 1
              \<and> 0 \<le> confidence r \<and> confidence r \<le> 1)"
    using i p by (intro exI [of _ ?r]) auto
next
  have "infer stub_model
          [Some 12, Some 50, Some 600, Some 2, Some 1, Some 1, Some 1,
           Some (6 / 25), Some 12, Some 0, Some 0, Some 1] =
        Inr \<lparr>churn_prediction = True, churn_probability = 0.7,
             confidence = 0.7, model_version = ''1.0.0''\<rparr>"
    by (simp add: infer_def stub_model_def seq_item_def py_max_def)
  moreover have "model absent_snapshot = Some stub_model"
    by (simp add: absent_snapshot_def)
  ultimately show "predict_churn absent_snapshot example_customer =
       Inr \<lparr>churn_prediction = True, churn_probability = 0.7,
            confidence = 0.7, model_version = ''1.0.0''\<rparr>"
    by (simp add: predict_churn_def predict_churn_body_def absent_example_row)
qed

text \<open>The theorem at the stub model and the example record, both hypotheses discharged.\<close>

theorem predict_churn_result_witness:
  "predict stub_model
       [Some 12, Some 50, Some 600, Some 2, Some 1, Some 1, Some 1,
        Some (6 / 25), Some 12, Some 0, Some 0, Some 1] = Inr [1]
   \<and> predict_proba stub_model
       [Some 12, Some 50, Some 600, Some 2, Some 1, Some 1, Some 1,
        Some (6 / 25), Some 12, Some 0, Some 0, Some 1] = Inr [[0.3, 0.7]]
   \<and> model absent_snapshot = Some stub_model
   \<and> prepare_features absent_snapshot example_customer =
       Inr [Some 12, Some 50, Some 600, Some 2, Some 1, Some 1, Some 1,
            Some (6 / 25), Some 12, Some 0, Some 0, Some 1]
   \<and> (0::real) \<le> 0.3 \<and> (0.3::real) \<le> 1 \<and> (0::real) \<le> 0.7 \<and> (0.7::real) \<le> 1
   \<and> (\<exists>r. predict_churn absent_snapshot example_customer = Inr r
          \<and> churn_prediction r \<and> churn_probability r = 0.7 \<and> confidence r = 0.7
          \<and> model_version r = ''1.0.0''
          \<and> 0 \<le> churn_probability r \<and> churn_probability r \<le> 1
          \<and> 0 \<le> confidence r \<and> confidence r \<le> 1)"
proof -
  let ?row = "[Some 12, Some 50, Some 600, Some 2, Some 1, Some 1, Some 1,
               Some (6 / 25), Some 12, Some 0, Some 0, Some (1::real)]"
  have h: "predict stub_model ?row = Inr (1 # [])
           \<and> predict_proba stub_model ?row = Inr ([0.3, 0.7] # [])"
    by (simp add: stub_model_def)
  have g: "model absent_snapshot = Some stub_model
           \<and> prepare_features absent_snapshot example_customer = Inr ?row"
    by (simp add: absent_example_row) (simp add: absent_snapshot_def)
  have b: "(0::real) \<le> 0.3 \<and> (0.3::real) \<le> 1 \<and> (0::real) \<le> 0.7 \<and> (0.7::real) \<le> 1"
    by simp
  from predict_churn_result h g b
  obtain r where "predict_churn absent_snapshot example_customer = Inr r"
    and "churn_prediction r = ((1::int) \<noteq> 0)" and "churn_probability r = 0.7"
    and "confidence r = max 0.3 0.7" and "model_version r = ''1.0.0''"
    and "0 \<le> churn_probability r \<and> churn_probability r \<le> 1
         \<and> 0 \<le> confidence r \<and> confidence r \<le> 1"
    by blast
  then have "\<exists>r. predict_churn absent_snapshot example_customer = Inr r
          \<and> churn_prediction r \<and> churn_probability r = 0.7 \<and> confidence r = 0.7
          \<and> model_version r = ''1.0.0''
          \<and> 0 \<le> churn_probability r \<and> churn_probability r \<le> 1
          \<and> 0 \<le> confidence r \<and> confidence r \<le> 1"
    by (intro exI [of _ r]) simp
  with h g b show ?thesis by simp
qed

section \<open>Feature construction\<close>

text \<open>
  Claim C2, amended. When \<^verbatim>\<open>feature_columns\<close> is a non-empty list, every row that
  \<^verbatim>\<open>prepare_features\<close> returns has the length of \<^verbatim>\<open>feature_columns\<close>. When \<^verbatim>\<open>feature_columns\<close>
  is \<^verbatim>\<open>None\<close> or empty, as it is with no preprocessing metadata, every row it returns has
  length 12: the built-in order lists twelve features, not eleven.
\<close>

theorem prepare_features_length:
  "(feature_columns s = Some cols \<and> cols \<noteq> [] \<and> prepare_features s c = Inr row
      \<longrightarrow> length row = length cols)
   \<and> (\<not> truthy (feature_columns s) \<and> prepare_features s c = Inr row \<longrightarrow> length row = 12)"
proof (intro conjI impI)
  assume "feature_columns s = Some cols \<and> cols \<noteq> [] \<and> prepare_features s c = Inr row"
  then show "length row = length cols"
    using prepare_features_row_length [of s c row] by (simp add: truthy_def)
next
  assume "\<not> truthy (feature_columns s) \<and> prepare_features s c = Inr row"
  then show "length row = 12"
    using prepare_features_row_length [of s c row] by simp
qed

text \<open>A run of the full path, with a scaler of mean 0 and scale 1 in each of the 12 columns.\<close>

lemma full_example_row:
  "prepare_features (full_snapshot (Some unit_scaler)) example_customer =
     Inr [Some 12, Some 50, Some 600, Some 2, Some 1, Some 1, Some 1,
          Some (6 / 25), Some 12, Some 0, Some 2, Some 0]"
  by (simp add: example_defs feature_defs unit_scaler_def numeral_eq_Suc)

text \<open>The theorem at the example record, once on the full path and once with no metadata.\<close>

theorem prepare_features_length_witness:
  "feature_columns (full_snapshot (Some unit_scaler)) = Some training_feature_columns
   \<and> training_feature_columns \<noteq> []
   \<and> prepare_features (full_snapshot (Some unit_scaler)) example_customer =
       Inr [Some 12, Some 50, Some 600, Some 2, Some 1, Some 1, Some 1,
            Some (6 / 25), Some 12, Some 0, Some 2, Some 0]
   \<and> length [Some 12, Some 50, Some 600, Some 2, Some 1, Some 1, Some 1,
             Some (6 / 25), Some 12, Some 0, Some 2, Some (0::real)]
       = length training_feature_columns
   \<and> \<not> truthy (feature_columns absent_snapshot)
   \<and> prepare_features absent_snapshot example_customer =
       Inr [Some 12, Some 50, Some 600, Some 2, Some 1, Some 1, Some 1,
            Some (6 / 25), Some 12, Some 0, Some 0, Some 1]
   \<and> length [Some 12, Some 50, Some 600, Some 2, Some 1, Some 1, Some 1,
             Some (6 / 25), Some 12, Some 0, Some 0, Some (1::real)] = 12"
proof -
  have f: "feature_columns (full_snapshot (Some unit_scaler)) = Some training_feature_columns
           \<and> training_feature_columns \<noteq> []
           \<and> prepare_features (full_snapshot (Some unit_scaler)) example_customer =
               Inr [Some 12, Some 50, Some 600, Some 2, Some 1, Some 1, Some 1,
                    Some (6 / 25), Some 12, Some 0, Some 2, Some 0]"
    by (simp add: full_example_row) (simp add: full_snapshot_def training_feature_columns_def)
  have a: "\<not> truthy (feature_columns absent_snapshot)
           \<and> prepare_features absent_snapshot example_customer =
               Inr [Some 12, Some 50, Some 600, Some 2, Some 1, Some 1, Some 1,
                    Some (6 / 25), Some 12, Some 0, Some 0, Some 1]"
    by (simp add: absent_example_row) (simp add: truthy_def absent_snapshot_def initial_snapshot_def)
  note thm1 = prepare_features_length
    [of "full_snapshot (Some unit_scaler)" training_feature_columns example_customer
        "[Some 12, Some 50, Some 600, Some 2, Some 1, Some 1, Some 1,
          Some (6 / 25), Some 12, Some 0, Some 2, Some 0]"]
  note thm2 = prepare_features_length
    [of absent_snapshot training_feature_columns example_customer
        "[Some 12, Some 50, Some 600, Some 2, Some 1, Some 1, Some 1,
          Some (6 / 25), Some 12, Some 0, Some 0, Some 1]"]
  from thm1 f have "length [Some 12, Some 50, Some 600, Some 2, Some 1, Some 1, Some 1,
             Some (6 / 25), Some 12, Some 0, Some 2, Some (0::real)]
       = length training_feature_columns"
    by blast
  moreover from thm2 a
  have "length [Some 12, Some 50, Some 600, Some 2, Some 1, Some 1, Some 1,
             Some (6 / 25), Some 12, Some 0, Some 0, Some (1::real)] = 12"
    by blast
  ultimately show ?thesis using f a by blast
qed

text \<open>
  Claim C2 as stated fails: with no preprocessing metadata the row of the validated example
  record has 12 entries, and so it has when \<^verbatim>\<open>feature_columns\<close> is the empty list.
\<close>

theorem absent_length_counterexample:
  "validated example_customer
   \<and> scaler absent_snapshot = None \<and> feature_columns absent_snapshot = None
   \<and> label_encoders absent_snapshot = None
   \<and> prepare_features absent_snapshot example_customer =
       Inr [Some 12, Some 50, Some 600, Some 2, Some 1, Some 1, Some 1,
            Some (6 / 25), Some 12, Some 0, Some 0, Some 1]
   \<and> length [Some 12, Some 50, Some 600, Some 2, Some 1, Some 1, Some 1,
             Some (6 / 25), Some 12, Some 0, Some 0, Some (1::real)] \<noteq> 11
   \<and> prepare_features (absent_snapshot\<lparr>feature_columns := Some []\<rparr>) example_customer =
       Inr [Some 12, Some 50, Some 600, Some 2, Some 1, Some 1, Some 1,
            Some (6 / 25), Some 12, Some 0, Some 0, Some 1]
   \<and> length [Some 12, Some 50, Some 600, Some 2, Some 1, Some 1, Some 1,
             Some (6 / 25), Some 12, Some 0, Some 0, Some (1::real)] \<noteq> length ([] :: string list)"
  by (simp add: absent_example_row)
     (simp add: validated_def example_defs feature_defs)

text \<open>
  Claim C4. In the \<^verbatim>\<open>features\<close> dict that \<^verbatim>\<open>prepare_features\<close> builds,
  \<^verbatim>\<open>tenure_monthly_ratio\<close> is \<open>tenure / monthly_charges\<close> and \<^verbatim>\<open>total_monthly_ratio\<close> is
  \<open>total_charges / monthly_charges\<close> when \<open>monthly_charges > 0\<close>, and both are 0 when
  \<open>monthly_charges \<le> 0\<close>. In the built-in order, without a scaler, these are the entries 7
  and 8 of the returned row.
\<close>

theorem ratio_features:
  "(build_features s c = Inr fs \<longrightarrow>
      (0 < monthly_charges c \<longrightarrow>
         map_of fs ''tenure_monthly_ratio'' = Some (Some (real_of_int (tenure c) / monthly_charges c))
         \<and> map_of fs ''total_monthly_ratio'' = Some (Some (total_charges c / monthly_charges c)))
      \<and> (monthly_charges c \<le> 0 \<longrightarrow>
         map_of fs ''tenure_monthly_ratio'' = Some (Some 0)
         \<and> map_of fs ''total_monthly_ratio'' = Some (Some 0)))
   \<and> (\<not> truthy (feature_columns s) \<and> scaler s = None \<and> prepare_features s c = Inr row \<longrightarrow>
      (0 < monthly_charges c \<longrightarrow>
         row ! 7 = Some (real_of_int (tenure c) / monthly_charges c)
         \<and> row ! 8 = Some (total_charges c / monthly_charges c))
      \<and> (monthly_charges c \<le> 0 \<longrightarrow> row ! 7 = Some 0 \<and> row ! 8 = Some 0))"
proof (intro conjI)
  show "build_features s c = Inr fs \<longrightarrow>
      (0 < monthly_charges c \<longrightarrow>
         map_of fs ''tenure_monthly_ratio'' = Some (Some (real_of_int (tenure c) / monthly_charges c))
         \<and> map_of fs ''total_monthly_ratio'' = Some (Some (total_charges c / monthly_charges c)))
      \<and> (monthly_charges c \<le> 0 \<longrightarrow>
         map_of fs ''tenure_monthly_ratio'' = Some (Some 0)
         \<and> map_of fs ''total_monthly_ratio'' = Some (Some 0))"
  proof
    assume "build_features s c = Inr fs"
    from build_features_Inr [OF this] obtain b ce pe ie where
      b: "base_features c = Inr b" and f: "fs = b @
                [(''contract_encoded'', Some (real_of_int ce)),
                 (''payment_encoded'', Some (real_of_int pe)),
                 (''internet_encoded'', Some (real_of_int ie))]"
      by blast
    show
      "(0 < monthly_charges c \<longrightarrow>
         map_of fs ''tenure_monthly_ratio'' = Some (Some (real_of_int (tenure c) / monthly_charges c))
         \<and> map_of fs ''total_monthly_ratio'' = Some (Some (total_charges c / monthly_charges c)))
      \<and> (monthly_charges c \<le> 0 \<longrightarrow>
         map_of fs ''tenure_monthly_ratio'' = Some (Some 0)
         \<and> map_of fs ''total_monthly_ratio'' = Some (Some 0))"
      unfolding f base_features_Inr [OF b] by simp
  qed
next
  show "\<not> truthy (feature_columns s) \<and> scaler s = None \<and> prepare_features s c = Inr row \<longrightarrow>
      (0 < monthly_charges c \<longrightarrow>
         row ! 7 = Some (real_of_int (tenure c) / monthly_charges c)
         \<and> row ! 8 = Some (total_charges c / monthly_charges c))
      \<and> (monthly_charges c \<le> 0 \<longrightarrow> row ! 7 = Some 0 \<and> row ! 8 = Some 0)"
  proof
    assume a: "\<not> truthy (feature_columns s) \<and> scaler s = None \<and> prepare_features s c = Inr row"
    then obtain fs where b: "build_features s c = Inr fs"
      and r: "select_columns fs fallback_order = Inr row"
      by (auto simp: prepare_features_def prepare_features_body_def assemble_features_def
               split: sum.splits)
    from build_features_Inr [OF b] obtain b0 ce pe ie where
      b0: "base_features c = Inr b0" and f: "fs = b0 @
                [(''contract_encoded'', Some (real_of_int ce)),
                 (''payment_encoded'', Some (real_of_int pe)),
                 (''internet_encoded'', Some (real_of_int ie))]"
      by blast
    from r have "row ! 7 = Some (if monthly_charges c > 0
                                 then real_of_int (tenure c) / monthly_charges c else 0)
                 \<and> row ! 8 = Some (if monthly_charges c > 0
                                 then total_charges c / monthly_charges c else 0)"
      unfolding f base_features_Inr [OF b0]
      by (auto simp: fallback_order_def dict_item_def)
    then show "(0 < monthly_charges c \<longrightarrow>
         row ! 7 = Some (real_of_int (tenure c) / monthly_charges c)
         \<and> row ! 8 = Some (total_charges c / monthly_charges c))
      \<and> (monthly_charges c \<le> 0 \<longrightarrow> row ! 7 = Some 0 \<and> row ! 8 = Some 0)"
      by simp
  qed
qed


text \<open>The theorem at the example record (charges 50) and at the same record with charges 0.\<close>

theorem ratio_features_witness:
  "(\<exists>fs. build_features absent_snapshot example_customer = Inr fs
      \<and> 0 < monthly_charges example_customer
      \<and> map_of fs ''tenure_monthly_ratio'' = Some (Some (6 / 25))
      \<and> map_of fs ''total_monthly_ratio'' = Some (Some 12))
   \<and> \<not> truthy (feature_columns absent_snapshot) \<and> scaler absent_snapshot = None
   \<and> (\<exists>row. prepare_features absent_snapshot (example_customer\<lparr>monthly_charges := 0\<rparr>) = Inr row
      \<and> monthly_charges (example_customer\<lparr>monthly_charges := 0\<rparr>) \<le> 0
      \<and> row ! 7 = Some 0 \<and> row ! 8 = Some 0)"
proof -
  obtain fs where f: "build_features absent_snapshot example_customer = Inr fs"
    by (auto simp: example_defs feature_defs)
  have m: "0 < monthly_charges example_customer" "tenure example_customer = 12"
    "monthly_charges example_customer = 50" "total_charges example_customer = 600"
    by (simp_all add: example_customer_def)
  have a: "\<not> truthy (feature_columns absent_snapshot) \<and> scaler absent_snapshot = None"
    by (simp add: truthy_def absent_snapshot_def initial_snapshot_def)
  obtain row where
    r: "prepare_features absent_snapshot (example_customer\<lparr>monthly_charges := 0\<rparr>) = Inr row"
    by (auto simp: example_defs feature_defs)
  have z: "monthly_charges (example_customer\<lparr>monthly_charges := 0\<rparr>) \<le> 0"
    by simp
  from ratio_features [of absent_snapshot example_customer fs] f m
  have "map_of fs ''tenure_monthly_ratio'' = Some (Some (6 / 25))
        \<and> map_of fs ''total_monthly_ratio'' = Some (Some 12)"
    by simp
  moreover
  from ratio_features [of absent_snapshot "example_customer\<lparr>monthly_charges := 0\<rparr>" _ row] a r z
  have "row ! 7 = Some 0 \<and> row ! 8 = Some 0"
    by blast
  ultimately show ?thesis using f m a r z by blast
qed

text \<open>
  Claim C6. When \<^verbatim>\<open>label_encoders\<close> is \<^verbatim>\<open>None\<close> or empty, the three codes are those of the
  fixed tables: contract Month-to-month 0, One year 1, Two year 2; payment Electronic check 0,
  Mailed check 1, Bank transfer 2, Credit card 3; internet No 0, DSL 1, Fiber optic 2; any
  other value gives 0, and computing the codes raises nothing: whenever the dict literal of
  the record is built, so is the features dict, and it holds these codes. For
  Month-to-month, Electronic check and No, \<^verbatim>\<open>contract_encoded\<close>, \<^verbatim>\<open>payment_encoded\<close> and
  \<^verbatim>\<open>has_internet\<close> are 0.
\<close>

theorem fallback_codes:
  "\<not> truthy (label_encoders s) \<longrightarrow>
     categorical_codes s c =
       Inr (if contract_type c = ''Month-to-month'' then 0
            else if contract_type c = ''One year'' then 1
            else if contract_type c = ''Two year'' then 2 else 0,
            if payment_method c = ''Electronic check'' then 0
            else if payment_method c = ''Mailed check'' then 1
            else if payment_method c = ''Bank transfer'' then 2
            else if payment_method c = ''Credit card'' then 3 else 0,
            if internet_service c = Some ''No'' then 0
            else if internet_service c = Some ''DSL'' then 1
            else if internet_service c = Some ''Fiber optic'' then 2 else 0)
     \<and> (base_features c = Inr b \<longrightarrow> (\<exists>fs'. build_features s c = Inr fs'))
     \<and> (build_features s c = Inr fs \<longrightarrow>
          map_of fs ''contract_encoded'' =
            Some (Some (if contract_type c = ''Month-to-month'' then 0
                        else if contract_type c = ''One year'' then 1
                        else if contract_type c = ''Two year'' then 2 else 0))
          \<and> map_of fs ''payment_encoded'' =
            Some (Some (if payment_method c = ''Electronic check'' then 0
                        else if payment_method c = ''Mailed check'' then 1
                        else if payment_method c = ''Bank transfer'' then 2
                        else if payment_method c = ''Credit card'' then 3 else 0))
          \<and> map_of fs ''internet_encoded'' =
            Some (Some (if internet_service c = Some ''No'' then 0
                        else if internet_service c = Some ''DSL'' then 1
                        else if internet_service c = Some ''Fiber optic'' then 2 else 0))
          \<and> (contract_type c = ''Month-to-month'' \<and> payment_method c = ''Electronic check''
               \<and> internet_service c = Some ''No'' \<longrightarrow>
              map_of fs ''contract_encoded'' = Some (Some 0)
              \<and> map_of fs ''payment_encoded'' = Some (Some 0)
              \<and> map_of fs ''has_internet'' = Some (Some 0)))"
proof
  assume a: "\<not> truthy (label_encoders s)"
  have k1: "dict_get contract_mapping (Some (contract_type c)) 0 =
              (if contract_type c = ''Month-to-month'' then 0
               else if contract_type c = ''One year'' then 1
               else if contract_type c = ''Two year'' then 2 else 0)"
    by (simp add: dict_get_def contract_mapping_def)
  have k2: "dict_get payment_mapping (Some (payment_method c)) 0 =
              (if payment_method c = ''Electronic check'' then 0
               else if payment_method c = ''Mailed check'' then 1
               else if payment_method c = ''Bank transfer'' then 2
               else if payment_method c = ''Credit card'' then 3 else 0)"
    by (simp add: dict_get_def payment_mapping_def)
  have k3: "dict_get internet_mapping (internet_service c) 0 =
              (if internet_service c = Some ''No'' then 0
               else if internet_service c = Some ''DSL'' then 1
               else if internet_service c = Some ''Fiber optic'' then 2 else 0)"
    by (cases "internet_service c") (simp_all add: dict_get_def internet_mapping_def)
  have k: "categorical_codes s c =
       Inr (if contract_type c = ''Month-to-month'' then 0
            else if contract_type c = ''One year'' then 1
            else if contract_type c = ''Two year'' then 2 else 0,
            if payment_method c = ''Electronic check'' then 0
            else if payment_method c = ''Mailed check'' then 1
            else if payment_method c = ''Bank transfer'' then 2
            else if payment_method c = ''Credit card'' then 3 else 0,
            if internet_service c = Some ''No'' then 0
            else if internet_service c = Some ''DSL'' then 1
            else if internet_service c = Some ''Fiber optic'' then 2 else 0)"
    unfolding categorical_codes_fallback [OF a] k1 k2 k3 ..
  have t: "base_features c = Inr b \<longrightarrow> (\<exists>fs'. build_features s c = Inr fs')"
    by (simp add: build_features_def k)
  have d: "build_features s c = Inr fs \<longrightarrow>
          map_of fs ''contract_encoded'' =
            Some (Some (if contract_type c = ''Month-to-month'' then 0
                        else if contract_type c = ''One year'' then 1
                        else if contract_type c = ''Two year'' then 2 else 0))
          \<and> map_of fs ''payment_encoded'' =
            Some (Some (if payment_method c = ''Electronic check'' then 0
                        else if payment_method c = ''Mailed check'' then 1
                        else if payment_method c = ''Bank transfer'' then 2
                        else if payment_method c = ''Credit card'' then 3 else 0))
          \<and> map_of fs ''internet_encoded'' =
            Some (Some (if internet_service c = Some ''No'' then 0
                        else if internet_service c = Some ''DSL'' then 1
                        else if internet_service c = Some ''Fiber optic'' then 2 else 0))
          \<and> (contract_type c = ''Month-to-month'' \<and> payment_method c = ''Electronic check''
               \<and> internet_service c = Some ''No'' \<longrightarrow>
              map_of fs ''contract_encoded'' = Some (Some 0)
              \<and> map_of fs ''payment_encoded'' = Some (Some 0)
              \<and> map_of fs ''has_internet'' = Some (Some 0))"
  proof
    assume "build_features s c = Inr fs"
    from build_features_Inr [OF this] obtain b0 ce pe ie where
      b0: "base_features c = Inr b0" and k': "categorical_codes s c = Inr (ce, pe, ie)"
      and f: "fs = b0 @
                [(''contract_encoded'', Some (real_of_int ce)),
                 (''payment_encoded'', Some (real_of_int pe)),
                 (''internet_encoded'', Some (real_of_int ie))]"
      by blast
    from k k' have ce: "ce = (if contract_type c = ''Month-to-month'' then 0
                        else if contract_type c = ''One year'' then 1
                        else if contract_type c = ''Two year'' then 2 else 0)"
      and pe: "pe = (if payment_method c = ''Electronic check'' then 0
                        else if payment_method c = ''Mailed check'' then 1
                        else if payment_method c = ''Bank transfer'' then 2
                        else if payment_method c = ''Credit card'' then 3 else 0)"
      and ie: "ie = (if internet_service c = Some ''No'' then 0
                        else if internet_service c = Some ''DSL'' then 1
                        else if internet_service c = Some ''Fiber optic'' then 2 else 0)"
      by simp_all
    have m1: "map_of fs ''contract_encoded'' = Some (Some (real_of_int ce))"
      and m2: "map_of fs ''payment_encoded'' = Some (Some (real_of_int pe))"
      and m3: "map_of fs ''internet_encoded'' = Some (Some (real_of_int ie))"
      and m4: "map_of fs ''has_internet'' =
                 Some (Some (if internet_service c \<noteq> Some ''No'' then 1 else 0))"
      unfolding f base_features_Inr [OF b0] by simp_all
    show "map_of fs ''contract_encoded'' =
            Some (Some (if contract_type c = ''Month-to-month'' then 0
                        else if contract_type c = ''One year'' then 1
                        else if contract_type c = ''Two year'' then 2 else 0))
          \<and> map_of fs ''payment_encoded'' =
            Some (Some (if payment_method c = ''Electronic check'' then 0
                        else if payment_method c = ''Mailed check'' then 1
                        else if payment_method c = ''Bank transfer'' then 2
                        else if payment_method c = ''Credit card'' then 3 else 0))
          \<and> map_of fs ''internet_encoded'' =
            Some (Some (if internet_service c = Some ''No'' then 0
                        else if internet_service c = Some ''DSL'' then 1
                        else if internet_service c = Some ''Fiber optic'' then 2 else 0))
          \<and> (contract_type c = ''Month-to-month'' \<and> payment_method c = ''Electronic check''
               \<and> internet_service c = Some ''No'' \<longrightarrow>
              map_of fs ''contract_encoded'' = Some (Some 0)
              \<and> map_of fs ''payment_encoded'' = Some (Some 0)
              \<and> map_of fs ''has_internet'' = Some (Some 0))"
      unfolding m1 m2 m3 m4 ce pe ie by simp
  qed
  from k t d show "categorical_codes s c =
       Inr (if contract_type c = ''Month-to-month'' then 0
            else if contract_type c = ''One year'' then 1
            else if contract_type c = ''Two year'' then 2 else 0,
            if payment_method c = ''Electronic check'' then 0
            else if payment_method c = ''Mailed check'' then 1
            else if payment_method c = ''Bank transfer'' then 2
            else if payment_method c = ''Credit card'' then 3 else 0,
            if internet_service c = Some ''No'' then 0
            else if internet_service c = Some ''DSL'' then 1
            else if internet_service c = Some ''Fiber optic'' then 2 else 0)
     \<and> (base_features c = Inr b \<longrightarrow> (\<exists>fs'. build_features s c = Inr fs'))
     \<and> (build_features s c = Inr fs \<longrightarrow>
          map_of fs ''contract_encoded'' =
            Some (Some (if contract_type c = ''Month-to-month'' then 0
                        else if contract_type c = ''One year'' then 1
                        else if contract_type c = ''Two year'' then 2 else 0))
          \<and> map_of fs ''payment_encoded'' =
            Some (Some (if payment_method c = ''Electronic check'' then 0
                        else if payment_method c = ''Mailed check'' then 1
                        else if payment_method c = ''Bank transfer'' then 2
                        else if payment_method c = ''Credit card'' then 3 else 0))
          \<and> map_of fs ''internet_encoded'' =
            Some (Some (if internet_service c = Some ''No'' then 0
                        else if internet_service c = Some ''DSL'' then 1
                        else if internet_service c = Some ''Fiber optic'' then 2 else 0))
          \<and> (contract_type c = ''Month-to-month'' \<and> payment_method c = ''Electronic check''
               \<and> internet_service c = Some ''No'' \<longrightarrow>
              map_of fs ''contract_encoded'' = Some (Some 0)
              \<and> map_of fs ''payment_encoded'' = Some (Some 0)
              \<and> map_of fs ''has_internet'' = Some (Some 0)))"
    by (intro conjI)
qed

text \<open>
  The theorem at the example record with \<^verbatim>\<open>internet_service\<close> set to No, and at a record
  whose three values are in no table.
\<close>

theorem fallback_codes_witness:
  "\<not> truthy (label_encoders absent_snapshot)
   \<and> contract_type (example_customer\<lparr>internet_service := Some ''No''\<rparr>) = ''Month-to-month''
   \<and> payment_method (example_customer\<lparr>internet_service := Some ''No''\<rparr>) = ''Electronic check''
   \<and> internet_service (example_customer\<lparr>internet_service := Some ''No''\<rparr>) = Some ''No''
   \<and> (\<exists>b. base_features (example_customer\<lparr>internet_service := Some ''No''\<rparr>) = Inr b)
   \<and> (\<exists>fs. build_features absent_snapshot (example_customer\<lparr>internet_service := Some ''No''\<rparr>) = Inr fs
        \<and> map_of fs ''contract_encoded'' = Some (Some 0)
        \<and> map_of fs ''payment_encoded'' = Some (Some 0)
        \<and> map_of fs ''has_internet'' = Some (Some 0))
   \<and> categorical_codes absent_snapshot
        (example_customer\<lparr>contract_type := ''Weekly'', payment_method := ''Cash'',
                            internet_service := Some ''Satellite''\<rparr>) = Inr (0, 0, 0)"
proof -
  let ?c = "example_customer\<lparr>internet_service := Some ''No''\<rparr>"
  let ?u = "example_customer\<lparr>contract_type := ''Weekly'', payment_method := ''Cash'',
                            internet_service := Some ''Satellite''\<rparr>"
  have a: "\<not> truthy (label_encoders absent_snapshot)"
    by (simp add: truthy_def absent_snapshot_def initial_snapshot_def)
  have b: "contract_type ?c = ''Month-to-month''
   \<and> payment_method ?c = ''Electronic check''
   \<and> internet_service ?c = Some ''No''"
    by (simp add: example_customer_def)
  obtain b0 where b0: "base_features ?c = Inr b0"
    by (auto simp: example_defs feature_defs)
  from fallback_codes [of absent_snapshot ?c b0] a b0
  obtain fs where fs: "build_features absent_snapshot ?c = Inr fs"
    by blast
  from fallback_codes [of absent_snapshot ?c b0 fs] a b fs
  have "map_of fs ''contract_encoded'' = Some (Some 0)
        \<and> map_of fs ''payment_encoded'' = Some (Some 0)
        \<and> map_of fs ''has_internet'' = Some (Some 0)"
    by blast
  with fs have e: "\<exists>fs. build_features absent_snapshot ?c = Inr fs
        \<and> map_of fs ''contract_encoded'' = Some (Some 0)
        \<and> map_of fs ''payment_encoded'' = Some (Some 0)
        \<and> map_of fs ''has_internet'' = Some (Some 0)"
    by blast
  have u: "contract_type ?u = ''Weekly'' \<and> payment_method ?u = ''Cash''
           \<and> internet_service ?u = Some ''Satellite''"
    by simp
  from fallback_codes [of absent_snapshot ?u] a
  have "categorical_codes absent_snapshot ?u =
       Inr (if contract_type ?u = ''Month-to-month'' then 0
            else if contract_type ?u = ''One year'' then 1
            else if contract_type ?u = ''Two year'' then 2 else 0,
            if payment_method ?u = ''Electronic check'' then 0
            else if payment_method ?u = ''Mailed check'' then 1
            else if payment_method ?u = ''Bank transfer'' then 2
            else if payment_method ?u = ''Credit card'' then 3 else 0,
            if internet_service ?u = Some ''No'' then 0
            else if internet_service ?u = Some ''DSL'' then 1
            else if internet_service ?u = Some ''Fiber optic'' then 2 else 0)"
    by blast
  then have "categorical_codes absent_snapshot ?u = Inr (0, 0, 0)"
    unfolding u by simp
  with a b b0 e show ?thesis by blast
qed

text \<open>
  Claim C5. When \<^verbatim>\<open>label_encoders\<close> is a non-empty dict and the record's \<^verbatim>\<open>contract_type\<close>,
  \<^verbatim>\<open>payment_method\<close> or \<^verbatim>\<open>internet_service\<close>, as the encoder casts it, is not among the known
  values of the encoder under \<^verbatim>\<open>'contract'\<close>, \<^verbatim>\<open>'payment'\<close> or \<^verbatim>\<open>'internet'\<close> (or that encoder
  is missing), \<^verbatim>\<open>prepare_features\<close> returns no row: it raises the status 500
  feature-preparation error. The cause is what the dict literal raised if it raised, and
  otherwise the encoder's \<^verbatim>\<open>ValueError\<close> or a \<^verbatim>\<open>KeyError\<close>. No default code is used.
\<close>

theorem unknown_category_fails:
  "label_encoders s = Some les \<and> les \<noteq> []
   \<and> ((case map_of les ''contract'' of None \<Rightarrow> True
          | Some le \<Rightarrow> (case le_cast le (Some (contract_type c)) of None \<Rightarrow> True
                        | Some x \<Rightarrow> x \<notin> set (le_classes le)))
       \<or> (case map_of les ''payment'' of None \<Rightarrow> True
          | Some le \<Rightarrow> (case le_cast le (Some (payment_method c)) of None \<Rightarrow> True
                        | Some x \<Rightarrow> x \<notin> set (le_classes le)))
       \<or> (case map_of les ''internet'' of None \<Rightarrow> True
          | Some le \<Rightarrow> (case le_cast le (internet_service c) of None \<Rightarrow> True
                        | Some x \<Rightarrow> x \<notin> set (le_classes le))))
   \<longrightarrow> (\<exists>e. prepare_features s c =
              Inl (HTTPException 500 ''Feature preparation error: '' (Some e))
            \<and> (case base_features c of
                 Inl b \<Rightarrow> e = b
               | Inr fs \<Rightarrow> e = ValueError ''y contains previously unseen labels''
                           \<or> (\<exists>k. e = KeyError k)))"
proof
  assume a: "label_encoders s = Some les \<and> les \<noteq> []
   \<and> ((case map_of les ''contract'' of None \<Rightarrow> True
          | Some le \<Rightarrow> (case le_cast le (Some (contract_type c)) of None \<Rightarrow> True
                        | Some x \<Rightarrow> x \<notin> set (le_classes le)))
       \<or> (case map_of les ''payment'' of None \<Rightarrow> True
          | Some le \<Rightarrow> (case le_cast le (Some (payment_method c)) of None \<Rightarrow> True
                        | Some x \<Rightarrow> x \<notin> set (le_classes le)))
       \<or> (case map_of les ''internet'' of None \<Rightarrow> True
          | Some le \<Rightarrow> (case le_cast le (internet_service c) of None \<Rightarrow> True
                        | Some x \<Rightarrow> x \<notin> set (le_classes le))))"
  then obtain e where e: "categorical_codes s c = Inl e"
    and k: "e = ValueError ''y contains previously unseen labels'' \<or> (\<exists>k. e = KeyError k)"
    using categorical_codes_unknown [of s les c] by blast
  show "\<exists>e. prepare_features s c =
              Inl (HTTPException 500 ''Feature preparation error: '' (Some e))
            \<and> (case base_features c of
                 Inl b \<Rightarrow> e = b
               | Inr fs \<Rightarrow> e = ValueError ''y contains previously unseen labels''
                           \<or> (\<exists>k. e = KeyError k))"
  proof (cases "base_features c")
    case (Inl b)
    then have "prepare_features s c =
        Inl (HTTPException 500 ''Feature preparation error: '' (Some b))"
      by (simp add: prepare_features_def prepare_features_body_def assemble_features_def
            build_features_def)
    with Inl show ?thesis by simp
  next
    case (Inr fs)
    with e have "prepare_features s c =
        Inl (HTTPException 500 ''Feature preparation error: '' (Some e))"
      by (simp add: prepare_features_def prepare_features_body_def assemble_features_def
            build_features_def)
    with Inr k show ?thesis by simp
  qed
qed

text \<open>
  The theorem on the full path with the trained encoders, at a contract type they never
  saw, and at the same record with a tenure beyond the float range.
\<close>

theorem unknown_category_fails_witness:
  "label_encoders (full_snapshot (Some unit_scaler)) = Some trained_encoders
   \<and> trained_encoders \<noteq> []
   \<and> map_of trained_encoders ''contract'' = Some (le_fit contract_values)
   \<and> le_cast (le_fit contract_values) (Some ''Weekly'') = Some ''Weekly''
   \<and> ''Weekly'' \<notin> set (le_classes (le_fit contract_values))
   \<and> prepare_features (full_snapshot (Some unit_scaler))
        (example_customer\<lparr>contract_type := ''Weekly''\<rparr>) =
       Inl (HTTPException 500 ''Feature preparation error: ''
             (Some (ValueError ''y contains previously unseen labels'')))
   \<and> prepare_features (full_snapshot (Some unit_scaler))
        (example_customer\<lparr>contract_type := ''Weekly'', tenure := 10 ^ 309\<rparr>) =
       Inl (HTTPException 500 ''Feature preparation error: ''
             (Some (OverflowError ''int too large to convert to float'')))"
proof -
  let ?s = "full_snapshot (Some unit_scaler)"
  let ?c = "example_customer\<lparr>contract_type := ''Weekly''\<rparr>"
  let ?d = "example_customer\<lparr>contract_type := ''Weekly'', tenure := 10 ^ 309\<rparr>"
  have a: "label_encoders ?s = Some trained_encoders \<and> trained_encoders \<noteq> []"
    by (simp add: full_snapshot_def trained_encoders_def engineer_label_encoders_def)
  have b: "map_of trained_encoders ''contract'' = Some (le_fit contract_values)"
    by (simp add: trained_encoders_def engineer_label_encoders_def)
  have w: "le_cast (le_fit contract_values) (Some ''Weekly'') = Some ''Weekly''
           \<and> ''Weekly'' \<notin> set (le_classes (le_fit contract_values))"
    by (simp add: le_fit_def contract_values_def)
  have h: "case map_of trained_encoders ''contract'' of None \<Rightarrow> True
          | Some le \<Rightarrow> (case le_cast le (Some (contract_type ?c)) of None \<Rightarrow> True
                        | Some x \<Rightarrow> x \<notin> set (le_classes le))"
    using b w by simp
  have h': "case map_of trained_encoders ''contract'' of None \<Rightarrow> True
          | Some le \<Rightarrow> (case le_cast le (Some (contract_type ?d)) of None \<Rightarrow> True
                        | Some x \<Rightarrow> x \<notin> set (le_classes le))"
    using b w by simp
  have bc: "\<exists>fs. base_features ?c = Inr fs"
    by (simp add: example_defs feature_defs)
  have bd: "base_features ?d = Inl (OverflowError ''int too large to convert to float'')"
    by (simp add: example_defs feature_defs)
  from unknown_category_fails [of ?s trained_encoders ?c] a h bc
  obtain e where e: "prepare_features ?s ?c =
              Inl (HTTPException 500 ''Feature preparation error: '' (Some e))"
    and k: "e = ValueError ''y contains previously unseen labels'' \<or> (\<exists>k. e = KeyError k)"
    by auto
  have "prepare_features ?s ?c =
       Inl (HTTPException 500 ''Feature preparation error: ''
             (Some (ValueError ''y contains previously unseen labels'')))"
    by (simp add: example_defs feature_defs)
  moreover
  from unknown_category_fails [of ?s trained_encoders ?d] a h' bd
  have "prepare_features ?s ?d =
       Inl (HTTPException 500 ''Feature preparation error: ''
             (Some (OverflowError ''int too large to convert to float'')))"
    by auto
  ultimately show ?thesis using a b w e by blast
qed

section \<open>Loading\<close>

text \<open>
  Claim C7. \<^verbatim>\<open>load_model\<close> returns \<^verbatim>\<open>False\<close> exactly when the body of its \<^verbatim>\<open>try\<close> raised,
  whatever the two paths hold: the full path unreadable, a slot missing from the bundle,
  the full path absent and the simple path absent or unreadable; it returns \<^verbatim>\<open>True\<close> in
  the two remaining cases. Whenever \<^verbatim>\<open>model\<close> is \<^verbatim>\<open>None\<close>, \<^verbatim>\<open>health_check\<close> reports
  \<^verbatim>\<open>model_loaded\<close> false and \<^verbatim>\<open>predict_churn\<close> rejects every record with the status 500
  error whose cause is the \<^verbatim>\<open>Model not loaded\<close> exception; this is the state after a failed
  load at startup when the full path is absent or unreadable.
\<close>

theorem load_fails_soft:
  "(fst (load_model fs s) = (fst (load_model_body fs s) = None))
   \<and> (fst (load_model fs s) =
        (case full_file fs of
           Unreadable e \<Rightarrow> False
         | Pickled md \<Rightarrow> md_model md \<noteq> NoKey \<and> md_scaler md \<noteq> NoKey
                        \<and> md_feature_columns md \<noteq> NoKey \<and> md_label_encoders md \<noteq> NoKey
         | NoFile \<Rightarrow> (case simple_file fs of
                       NoFile \<Rightarrow> False | Unreadable e \<Rightarrow> False | Pickled m \<Rightarrow> True)))
   \<and> (model s = None \<longrightarrow>
        health_check s = Inr \<lparr>status = ''healthy'', model_loaded = False, model_type = None\<rparr>
        \<and> (\<forall>c. predict_churn s c =
              Inl (HTTPException 500 []
                    (Some (HTTPException 500 ''Model not loaded'' None)))))
   \<and> ((full_file fs = NoFile \<or> (\<exists>e. full_file fs = Unreadable e))
        \<and> fst (load_model fs initial_snapshot) = False \<longrightarrow>
        snd (load_model fs initial_snapshot) = initial_snapshot
        \<and> health_check (snd (load_model fs initial_snapshot)) =
            Inr \<lparr>status = ''healthy'', model_loaded = False, model_type = None\<rparr>)"
proof (intro conjI)
  show "fst (load_model fs s) = (fst (load_model_body fs s) = None)"
    by (rule load_model_fst)
next
  show "fst (load_model fs s) =
        (case full_file fs of
           Unreadable e \<Rightarrow> False
         | Pickled md \<Rightarrow> md_model md \<noteq> NoKey \<and> md_scaler md \<noteq> NoKey
                        \<and> md_feature_columns md \<noteq> NoKey \<and> md_label_encoders md \<noteq> NoKey
         | NoFile \<Rightarrow> (case simple_file fs of
                       NoFile \<Rightarrow> False | Unreadable e \<Rightarrow> False | Pickled m \<Rightarrow> True))"
    by (simp add: load_model_fst load_model_body_def Let_def
             split: pickle_file.splits slot.splits)
next
  show "model s = None \<longrightarrow>
        health_check s = Inr \<lparr>status = ''healthy'', model_loaded = False, model_type = None\<rparr>
        \<and> (\<forall>c. predict_churn s c =
              Inl (HTTPException 500 []
                    (Some (HTTPException 500 ''Model not loaded'' None))))"
    by (simp add: health_check_def predict_churn_no_model)
next
  show "(full_file fs = NoFile \<or> (\<exists>e. full_file fs = Unreadable e))
        \<and> fst (load_model fs initial_snapshot) = False \<longrightarrow>
        snd (load_model fs initial_snapshot) = initial_snapshot
        \<and> health_check (snd (load_model fs initial_snapshot)) =
            Inr \<lparr>status = ''healthy'', model_loaded = False, model_type = None\<rparr>"
    by (auto simp: load_model_fst load_model_snd load_model_body_def health_check_def
          initial_snapshot_def split: pickle_file.splits)
qed

text \<open>The theorem at startup with neither path on disk.\<close>

theorem load_fails_soft_witness:
  "fst (load_model_body no_files initial_snapshot) \<noteq> None
   \<and> full_file no_files = NoFile
   \<and> fst (load_model no_files initial_snapshot) = False
   \<and> snd (load_model no_files initial_snapshot) = initial_snapshot
   \<and> model initial_snapshot = None
   \<and> health_check initial_snapshot =
       Inr \<lparr>status = ''healthy'', model_loaded = False, model_type = None\<rparr>
   \<and> predict_churn initial_snapshot example_customer =
       Inl (HTTPException 500 [] (Some (HTTPException 500 ''Model not loaded'' None)))"
proof -
  have b: "fst (load_model_body no_files initial_snapshot) \<noteq> None"
    by (simp add: load_model_body_def no_files_def)
  have f: "full_file no_files = NoFile"
    by (simp add: no_files_def)
  have m: "model initial_snapshot = None"
    by (simp add: initial_snapshot_def)
  note t = load_fails_soft [of no_files initial_snapshot]
  from t b have l: "fst (load_model no_files initial_snapshot) = False"
    by simp
  from t f l have u: "snd (load_model no_files initial_snapshot) = initial_snapshot"
    by blast
  from t m have "health_check initial_snapshot =
       Inr \<lparr>status = ''healthy'', model_loaded = False, model_type = None\<rparr>
    \<and> predict_churn initial_snapshot example_customer =
       Inl (HTTPException 500 [] (Some (HTTPException 500 ''Model not loaded'' None)))"
    by blast
  with b f m l u show ?thesis by blast
qed

text \<open>
  Claim C8, evaluated. The full path holds a dict with the \<^verbatim>\<open>'model'\<close> slot only. At
  startup \<^verbatim>\<open>load_model\<close> returns \<^verbatim>\<open>False\<close>, yet \<^verbatim>\<open>model\<close> is set while \<^verbatim>\<open>scaler\<close>,
  \<^verbatim>\<open>feature_columns\<close> and \<^verbatim>\<open>label_encoders\<close> are \<^verbatim>\<open>None\<close>; the health endpoint then reports
  a loaded model and \<^verbatim>\<open>predict_churn\<close> serves the example record. The other failures of
  the load (here: neither path on disk) leave every global as it was.
\<close>

theorem partial_load_leaves_model:
  "fst (load_model model_only_bundle initial_snapshot) = False
   \<and> model (snd (load_model model_only_bundle initial_snapshot)) = Some stub_model
   \<and> scaler (snd (load_model model_only_bundle initial_snapshot)) = None
   \<and> feature_columns (snd (load_model model_only_bundle initial_snapshot)) = None
   \<and> label_encoders (snd (load_model model_only_bundle initial_snapshot)) = None
   \<and> health_check (snd (load_model model_only_bundle initial_snapshot)) =
       Inr \<lparr>status = ''healthy'', model_loaded = True, model_type = Some ''StubModel''\<rparr>
   \<and> predict_churn (snd (load_model model_only_bundle initial_snapshot)) example_customer =
       Inr \<lparr>churn_prediction = True, churn_probability = 0.7,
            confidence = 0.7, model_version = ''1.0.0''\<rparr>
   \<and> load_model no_files initial_snapshot = (False, initial_snapshot)"
proof -
  have s: "snd (load_model model_only_bundle initial_snapshot) = absent_snapshot"
    by (simp add: load_model_def load_model_body_def model_only_bundle_def absent_snapshot_def)
  have f: "fst (load_model model_only_bundle initial_snapshot) = False"
    by (simp add: load_model_def load_model_body_def model_only_bundle_def)
  have m: "model absent_snapshot = Some stub_model \<and> scaler absent_snapshot = None
           \<and> feature_columns absent_snapshot = None \<and> label_encoders absent_snapshot = None"
    by (simp add: absent_snapshot_def initial_snapshot_def)
  have h: "health_check absent_snapshot =
       Inr \<lparr>status = ''healthy'', model_loaded = True, model_type = Some ''StubModel''\<rparr>"
    by (simp add: health_check_def absent_snapshot_def stub_model_def)
  have i: "infer stub_model
          [Some 12, Some 50, Some 600, Some 2, Some 1, Some 1, Some 1,
           Some (6 / 25), Some 12, Some 0, Some 0, Some 1] =
        Inr \<lparr>churn_prediction = True, churn_probability = 0.7,
             confidence = 0.7, model_version = ''1.0.0''\<rparr>"
    by (simp add: infer_def stub_model_def seq_item_def py_max_def)
  have p: "predict_churn absent_snapshot example_customer =
       Inr \<lparr>churn_prediction = True, churn_probability = 0.7,
            confidence = 0.7, model_version = ''1.0.0''\<rparr>"
    using m i by (simp add: predict_churn_def predict_churn_body_def absent_example_row)
  have n: "load_model no_files initial_snapshot = (False, initial_snapshot)"
    by (simp add: load_model_def load_model_body_def no_files_def)
  show ?thesis
    unfolding s using f m h p n by simp
qed

section \<open>The two encoding paths\<close>

text \<open>
  Claim C3, evaluated. The training script's column order is the built-in order, and the
  encoder fitted on the contract column gives the codes of the contract table. The
  encoders fitted on the payment and internet columns do not give the codes of the fallback
  tables: fitted, Electronic check, Mailed check, Bank transfer, Credit card are 2, 3, 0, 1
  and DSL, Fiber optic, No are 0, 1, 2; the tables give 0, 1, 2, 3 and 1, 2, 0. For the
  example record the rows assembled on the two paths differ in the entries 10 and 11.
\<close>

theorem fallback_tables_differ:
  "training_feature_columns = fallback_order
   \<and> map (\<lambda>v. encode_with trained_encoders ''contract'' (Some v)) contract_values
       = [Inr 0, Inr 1, Inr 2]
   \<and> map (\<lambda>v. dict_get contract_mapping (Some v) 0) contract_values = [0, 1, 2]
   \<and> map (\<lambda>v. encode_with trained_encoders ''payment'' (Some v)) payment_values
       = [Inr 2, Inr 3, Inr 0, Inr 1]
   \<and> map (\<lambda>v. dict_get payment_mapping (Some v) 0) payment_values = [0, 1, 2, 3]
   \<and> map (\<lambda>v. encode_with trained_encoders ''internet'' (Some v)) internet_values
       = [Inr 0, Inr 1, Inr 2]
   \<and> map (\<lambda>v. dict_get internet_mapping (Some v) 0) internet_values = [1, 2, 0]
   \<and> assemble_features (full_snapshot sc) example_customer =
       Inr [Some 12, Some 50, Some 600, Some 2, Some 1, Some 1, Some 1,
            Some (6 / 25), Some 12, Some 0, Some 2, Some 0]
   \<and> assemble_features absent_snapshot example_customer =
       Inr [Some 12, Some 50, Some 600, Some 2, Some 1, Some 1, Some 1,
            Some (6 / 25), Some 12, Some 0, Some 0, Some 1]"
  by (simp add: example_defs feature_defs)

text \<open>
  The two paths agree where their codes do: when the encoders give the record's three values
  the codes of the fallback tables and \<^verbatim>\<open>feature_columns\<close> is the built-in order, the row
  assembled with the encoders is the row assembled without metadata, and so is the returned
  row when the scalers are the same.
\<close>

theorem paths_agree_when_codes_agree:
  "truthy (label_encoders s1)
   \<and> encode_with (the (label_encoders s1)) ''contract'' (Some (contract_type c)) =
       Inr (dict_get contract_mapping (Some (contract_type c)) 0)
   \<and> encode_with (the (label_encoders s1)) ''payment'' (Some (payment_method c)) =
       Inr (dict_get payment_mapping (Some (payment_method c)) 0)
   \<and> encode_with (the (label_encoders s1)) ''internet'' (internet_service c) =
       Inr (dict_get internet_mapping (internet_service c) 0)
   \<and> feature_columns s1 = Some fallback_order
   \<and> \<not> truthy (label_encoders s2) \<and> \<not> truthy (feature_columns s2)
   \<longrightarrow> assemble_features s1 c = assemble_features s2 c
       \<and> (scaler s1 = scaler s2 \<longrightarrow> prepare_features s1 c = prepare_features s2 c)"
proof (intro impI, elim conjE)
  assume t: "truthy (label_encoders s1)"
    and e: "encode_with (the (label_encoders s1)) ''contract'' (Some (contract_type c)) =
       Inr (dict_get contract_mapping (Some (contract_type c)) 0)"
      "encode_with (the (label_encoders s1)) ''payment'' (Some (payment_method c)) =
       Inr (dict_get payment_mapping (Some (payment_method c)) 0)"
      "encode_with (the (label_encoders s1)) ''internet'' (internet_service c) =
       Inr (dict_get internet_mapping (internet_service c) 0)"
    and f: "feature_columns s1 = Some fallback_order"
    and a: "\<not> truthy (label_encoders s2)" "\<not> truthy (feature_columns s2)"
  have k: "categorical_codes s1 c = categorical_codes s2 c"
    using t e a by (simp add: categorical_codes_def)
  have b: "build_features s1 c = build_features s2 c"
    unfolding build_features_def k ..
  have tf: "truthy (feature_columns s1)"
    by (simp add: f truthy_def fallback_order_def)
  have r: "assemble_features s1 c = assemble_features s2 c"
    using tf a f by (cases "build_features s2 c") (simp_all add: assemble_features_def b)
  have "scaler s1 = scaler s2 \<longrightarrow> prepare_features s1 c = prepare_features s2 c"
    by (cases "assemble_features s2 c") (simp_all add: prepare_features_def prepare_features_body_def r)
  with r show "assemble_features s1 c = assemble_features s2 c
       \<and> (scaler s1 = scaler s2 \<longrightarrow> prepare_features s1 c = prepare_features s2 c)"
    by simp
qed

text \<open>The theorem at encoders whose codes are those of the tables on the record's values.\<close>

theorem paths_agree_when_codes_agree_witness:
  "truthy (Some table_like_encoders)
   \<and> encode_with table_like_encoders ''contract'' (Some ''Month-to-month'') = Inr 0
   \<and> encode_with table_like_encoders ''payment'' (Some ''Electronic check'') = Inr 0
   \<and> encode_with table_like_encoders ''internet'' (Some ''No'') = Inr 0
   \<and> prepare_features
        \<lparr>model = None, scaler = None, feature_columns = Some fallback_order,
         label_encoders = Some table_like_encoders\<rparr>
        (example_customer\<lparr>internet_service := Some ''No''\<rparr>)
       = prepare_features initial_snapshot (example_customer\<lparr>internet_service := Some ''No''\<rparr>)"
proof -
  let ?s = "\<lparr>model = None, scaler = None, feature_columns = Some fallback_order,
             label_encoders = Some table_like_encoders\<rparr>"
  let ?c = "example_customer\<lparr>internet_service := Some ''No''\<rparr>"
  have t: "truthy (Some table_like_encoders)"
    by (simp add: truthy_def table_like_encoders_def engineer_label_encoders_def)
  have e: "encode_with table_like_encoders ''contract'' (Some ''Month-to-month'') = Inr 0"
    "encode_with table_like_encoders ''payment'' (Some ''Electronic check'') = Inr 0"
    "encode_with table_like_encoders ''internet'' (Some ''No'') = Inr 0"
    by (simp_all add: table_like_encoders_def engineer_label_encoders_def le_fit_def
          contract_values_def encode_with_def dict_item_def le_transform_def)
  have d: "dict_get contract_mapping (Some ''Month-to-month'') 0 = 0"
    "dict_get payment_mapping (Some ''Electronic check'') 0 = 0"
    "dict_get internet_mapping (Some ''No'') 0 = 0"
    by (simp_all add: dict_get_def contract_mapping_def payment_mapping_def internet_mapping_def)
  have a: "\<not> truthy (label_encoders initial_snapshot)"
    "\<not> truthy (feature_columns initial_snapshot)"
    "scaler ?s = scaler initial_snapshot"
    by (simp_all add: truthy_def initial_snapshot_def)
  have h: "truthy (label_encoders ?s)
   \<and> encode_with (the (label_encoders ?s)) ''contract'' (Some (contract_type ?c)) =
       Inr (dict_get contract_mapping (Some (contract_type ?c)) 0)
   \<and> encode_with (the (label_encoders ?s)) ''payment'' (Some (payment_method ?c)) =
       Inr (dict_get payment_mapping (Some (payment_method ?c)) 0)
   \<and> encode_with (the (label_encoders ?s)) ''internet'' (internet_service ?c) =
       Inr (dict_get internet_mapping (internet_service ?c) 0)
   \<and> feature_columns ?s = Some fallback_order"
    using t e d by (simp add: example_customer_def)
  from paths_agree_when_codes_agree [of ?s ?c initial_snapshot] h a
  have "prepare_features ?s ?c = prepare_features initial_snapshot ?c"
    by blast
  with t e show ?thesis by simp
qed


section \<open>Health\<close>

text \<open>
  Claim C10, evaluated. The simple path holds an ensemble classifier that was pickled
  without being fitted. \<^verbatim>\<open>load_model\<close> accepts it and returns \<^verbatim>\<open>True\<close>; \<^verbatim>\<open>health_check\<close>
  then raises the \<^verbatim>\<open>AttributeError\<close> of the truth test of line 184 and returns no response.
  With nothing loaded, and with the stub model loaded, it answers with the status
  \<open>''healthy''\<close> and \<^verbatim>\<open>model_loaded\<close> false and true.
\<close>

theorem health_check_raises:
  "load_model unfitted_simple_file initial_snapshot =
     (True, initial_snapshot\<lparr>model := Some unfitted_model\<rparr>)
   \<and> health_check (initial_snapshot\<lparr>model := Some unfitted_model\<rparr>) =
       Inl (AttributeError ''estimators_'')
   \<and> health_check initial_snapshot =
       Inr \<lparr>status = ''healthy'', model_loaded = False, model_type = None\<rparr>
   \<and> health_check absent_snapshot =
       Inr \<lparr>status = ''healthy'', model_loaded = True, model_type = Some ''StubModel''\<rparr>"
  by (simp add: load_model_def load_model_body_def unfitted_simple_file_def health_check_def
        unfitted_model_def initial_snapshot_def absent_snapshot_def stub_model_def)

end
